theory Spec2Isabelle
  imports Main "HOL-Library.Word"
begin

unbundle bit_operations_syntax

section \<open>Data model of the device manager\<close>

text \<open>
  The embedding follows \<^verbatim>\<open>src/mvisor/core/device_manager.cc\<close>. C++ integers are
  words of their width: \<^verbatim>\<open>uint8_t\<close>, \<^verbatim>\<open>uint16_t\<close>, \<^verbatim>\<open>uint32_t\<close>/\<^verbatim>\<open>uint\<close>,
  \<^verbatim>\<open>uint64_t\<close> are unsigned words and \<^verbatim>\<open>int\<close> is a 32-bit word read as two's
  complement (\<open>sint\<close>), so every addition wraps as the machine's does and the cast
  \<^verbatim>\<open>(uint)\<close> of an \<^verbatim>\<open>int\<close> keeps the word. Pointers to devices are device numbers.
\<close>

type_synonym u8 = "8 word"
type_synonym u16 = "16 word"
type_synonym u32 = "32 word"
type_synonym u64 = "64 word"
type_synonym s32 = "32 word"
type_synonym device = nat

datatype IoResourceType = kIoResourceTypePio | kIoResourceTypeMmio | kIoResourceTypeRam

text \<open>
  \<^verbatim>\<open>struct IoResource\<close>. Its declaration is in a header that is not part of the
  sources at hand; \<^verbatim>\<open>base\<close> is compared with the \<^verbatim>\<open>uint64_t\<close> address of
  \<^verbatim>\<open>HandleMmio\<close> and printed, like \<^verbatim>\<open>base + length - 1\<close>, with \<^verbatim>\<open>%lx\<close>, so both
  fields are taken as 64-bit unsigned and \<^verbatim>\<open>base + length\<close> is computed modulo \<open>2^64\<close>.
\<close>

record IoResource =
  resource_type :: IoResourceType
  resource_base :: u64
  resource_length :: u64
  resource_name :: string
  resource_enabled :: bool

text \<open>\<^verbatim>\<open>struct IoHandler\<close>: the resource, the owning device, and for MMIO the mapped region
  (kept as its guest address and size).\<close>

record IoHandler =
  handler_resource :: IoResource
  handler_device :: device
  handler_memory_region :: "(u64 \<times> u64) option"

datatype IoEventType = kIoEventPio | kIoEventMmio | kIoEventFd

record IoEvent =
  event_type :: IoEventType
  event_device :: device
  event_address :: u64
  event_length :: u32
  event_datamatch :: u64
  event_flags :: u32
  event_fd :: s32

text \<open>
  \<^verbatim>\<open>struct kvm_irq_routing_entry\<close> of the Linux KVM interface: the union \<^verbatim>\<open>u\<close> holds
  either an irqchip route (chip, pin) or an MSI route (address_lo, address_hi, data).
\<close>

datatype kvm_irq_routing_u =
    Irqchip u32 u32
  | Msi u32 u32 u32

record kvm_irq_routing_entry =
  entry_gsi :: u32
  entry_type :: u32
  entry_flags :: u32
  entry_u :: kvm_irq_routing_u

text \<open>Constants of \<^verbatim>\<open>linux/kvm.h\<close>.\<close>

definition KVM_IRQ_ROUTING_IRQCHIP :: u32 where "KVM_IRQ_ROUTING_IRQCHIP = 1"
definition KVM_IRQ_ROUTING_MSI :: u32 where "KVM_IRQ_ROUTING_MSI = 2"
definition KVM_IOEVENTFD_FLAG_DATAMATCH :: u32 where "KVM_IOEVENTFD_FLAG_DATAMATCH = 1"
definition KVM_IOEVENTFD_FLAG_PIO :: u32 where "KVM_IOEVENTFD_FLAG_PIO = 2"
definition KVM_IOEVENTFD_FLAG_DEASSIGN :: u32 where "KVM_IOEVENTFD_FLAG_DEASSIGN = 4"
definition KVM_IRQFD_FLAG_DEASSIGN :: u32 where "KVM_IRQFD_FLAG_DEASSIGN = 1"

text \<open>
  The control requests the manager issues on the VM file descriptor, with their
  arguments. The kernel is outside the program: its answer to a request, which may
  depend on the requests it has received before, is the parameter \<open>kvm\<close> of every
  operation that calls \<^verbatim>\<open>ioctl\<close>, and the requests issued are recorded in the state.
\<close>

datatype kvm_request =
    KVM_SET_GSI_ROUTING "kvm_irq_routing_entry list"
  | KVM_IRQFD u32 u32 u32
  | KVM_IOEVENTFD u64 u64 u32 s32 u32

type_synonym kvm = "kvm_request list \<Rightarrow> kvm_request \<Rightarrow> int"

text \<open>
  The fields of \<^verbatim>\<open>class DeviceManager\<close> that the operations below read or write.
  The two handler tables are \<^verbatim>\<open>std::deque<IoHandler*>\<close>, \<^verbatim>\<open>ioevents_\<close> is a
  \<^verbatim>\<open>std::set<IoEvent*>\<close> (listed in its iteration order), \<^verbatim>\<open>gsi_routing_table_\<close> is
  a vector of entries and \<^verbatim>\<open>next_gsi_\<close> an \<^verbatim>\<open>int\<close>. \<open>polling\<close> are the descriptors
  the I/O thread polls and \<open>vm_requests\<close> the requests sent to the kernel so far.
\<close>

record DeviceManager =
  pio_handlers :: "IoHandler list"
  mmio_handlers :: "IoHandler list"
  ioevents :: "IoEvent list"
  gsi_routing_table :: "kvm_irq_routing_entry list"
  next_gsi :: s32
  polling :: "s32 list"
  vm_requests :: "kvm_request list"

datatype panic = Panic string

text \<open>
  Modelled from the spec: the macro \<^verbatim>\<open>MV_PANIC\<close> (declared in \<^verbatim>\<open>logger.h\<close>, which is
  not among the sources). The specification calls every such error fatal: it aborts
  the process after logging. The operation therefore ends with the panic and no
  successor state.
\<close>

definition MV_PANIC :: "string \<Rightarrow> panic + 'a" where
  "MV_PANIC msg = Inl (Panic msg)"

definition bind_result :: "panic + 'a \<Rightarrow> ('a \<Rightarrow> panic + 'b) \<Rightarrow> panic + 'b" where
  "bind_result r f = (case r of Inl e \<Rightarrow> Inl e | Inr x \<Rightarrow> f x)"

definition ioctl :: "kvm \<Rightarrow> kvm_request \<Rightarrow> DeviceManager \<Rightarrow> int \<times> DeviceManager" where
  "ioctl kvm req s = (kvm (vm_requests s) req, s\<lparr>vm_requests := vm_requests s @ [req]\<rparr>)"

section \<open>Dispatch: HandleIo and HandleMmio\<close>

text \<open>
  One invocation of a device's \<^verbatim>\<open>Read\<close> or \<^verbatim>\<open>Write\<close>: the device, the direction, the
  resource, the offset, the position of the buffer pointer relative to the caller's
  \<^verbatim>\<open>data\<close>, and the size.
\<close>

record IoCall =
  call_device :: device
  call_is_write :: bool
  call_resource :: IoResource
  call_offset :: u64
  call_ptr :: nat
  call_size :: u16

text \<open>
  Devices are outside the manager. A device model \<open>dev\<close> says what an invocation does
  to the caller's buffer and to the devices' own state \<open>'w\<close>. The bus state threaded
  through a dispatch is the buffer, the devices' state, and the invocations made.
\<close>

type_synonym 'w device_model = "IoCall \<Rightarrow> u8 list \<times> 'w \<Rightarrow> u8 list \<times> 'w"

record 'w bus =
  bus_data :: "u8 list"
  bus_world :: 'w
  bus_calls :: "IoCall list"

definition invoke :: "'w device_model \<Rightarrow> IoCall \<Rightarrow> 'w bus \<Rightarrow> 'w bus" where
  "invoke dev c b =
     (let (d, w) = dev c (bus_data b, bus_world b)
      in \<lparr>bus_data = d, bus_world = w, bus_calls = bus_calls b @ [c]\<rparr>)"

text \<open>The range tests of the two scans, with the port converted to 64 bits as C does.\<close>

definition pio_hit :: "u16 \<Rightarrow> IoHandler \<Rightarrow> bool" where
  "pio_hit port h =
     (let resource = handler_resource h
      in ucast port \<ge> resource_base resource
         \<and> ucast port < resource_base resource + resource_length resource)"

definition mmio_hit :: "u64 \<Rightarrow> IoHandler \<Rightarrow> bool" where
  "mmio_hit base h =
     (let resource = handler_resource h
      in base \<ge> resource_base resource
         \<and> base < resource_base resource + resource_length resource)"

text \<open>
  The scanning loop \<^verbatim>\<open>for (it = begin; it != end; it++, it_count++)\<close>: the first
  handler that is hit, with the value of \<^verbatim>\<open>it_count\<close> there.
\<close>

fun scan_handlers :: "(IoHandler \<Rightarrow> bool) \<Rightarrow> IoHandler list \<Rightarrow> nat \<Rightarrow> (nat \<times> IoHandler) option" where
  "scan_handlers hit [] it_count = None"
| "scan_handlers hit (h # rest) it_count =
     (if hit h then Some (it_count, h) else scan_handlers hit rest (Suc it_count))"

text \<open>\<^verbatim>\<open>erase\<close> with a valid iterator, given as the position it designates.\<close>

definition erase :: "'a list \<Rightarrow> nat \<Rightarrow> 'a list" where
  "erase xs i = take i xs @ drop (Suc i) xs"

text \<open>
  An iterator of a \<^verbatim>\<open>std::deque\<close> is the position it designates until an operation
  of the deque invalidates it. \<^verbatim>\<open>push_front\<close> inserts at the front and invalidates
  every iterator of the deque. \<^verbatim>\<open>erase\<close> requires a valid iterator; called with an
  invalidated one its behaviour is undefined in C++, and what happens to the table
  then depends on the library and on the layout of the deque. The model does not
  choose an outcome: it ends the table with \<open>EraseInvalidated\<close>, which keeps the
  contents the deque had when \<^verbatim>\<open>erase\<close> was called.
\<close>

datatype iterator = Iterator nat | Invalidated

datatype 'a undefined_behaviour = EraseInvalidated "'a list"

definition push_front :: "'a \<Rightarrow> 'a list \<Rightarrow> iterator \<Rightarrow> 'a list \<times> iterator" where
  "push_front x xs it = (x # xs, Invalidated)"

definition deque_erase :: "'a list \<Rightarrow> iterator \<Rightarrow> 'a undefined_behaviour + 'a list" where
  "deque_erase xs it =
     (case it of
        Iterator i \<Rightarrow> Inr (erase xs i)
      | Invalidated \<Rightarrow> Inl (EraseInvalidated xs))"

text \<open>
  The promotion \<^verbatim>\<open>push_front(*it); erase(it); --it;\<close> of both dispatchers. \<^verbatim>\<open>*it\<close> is
  read before the insertion; \<^verbatim>\<open>erase\<close> receives the iterator as \<^verbatim>\<open>push_front\<close> has left
  it; the decremented iterator is never used.
\<close>

definition move_to_front :: "'a list \<Rightarrow> nat \<Rightarrow> 'a undefined_behaviour + 'a list" where
  "move_to_front hs it_count =
     (let (hs', it) = push_front (hs ! it_count) hs (Iterator it_count)
      in deque_erase hs' it)"

text \<open>
  The string loop of \<^verbatim>\<open>HandleIo\<close>:
  \<^verbatim>\<open>for (uint32_t i = 0; i < count; i++) { Read/Write(resource, offset, ptr, size); ptr += size; }\<close>
  (the parameters \<^verbatim>\<open>count\<close> and \<^verbatim>\<open>size\<close> are written \<open>count'\<close> and \<open>size'\<close>).
\<close>

function pio_loop :: "'w device_model \<Rightarrow> IoCall \<Rightarrow> u32 \<Rightarrow> u32 \<Rightarrow> 'w bus \<Rightarrow> 'w bus" where
  "pio_loop dev c count' i b =
     (if i < count'
      then pio_loop dev (c\<lparr>call_ptr := call_ptr c + unat (call_size c)\<rparr>) count' (i + 1) (invoke dev c b)
      else b)"
  by pat_completeness auto
termination
proof (relation "measure (\<lambda>(dev, c, count', i, b). unat count' - unat i)")
  show "wf (measure (\<lambda>(dev, c, count', i, b). unat count' - unat i))"
    by simp
next
  fix dev :: "'w device_model" and c :: IoCall and count' i :: u32 and b :: "'w bus"
  assume lt: "i < count'"
  then have "unat i < unat count'"
    by (simp add: word_less_nat_alt)
  moreover have "unat count' < 2 ^ 32"
    using unsigned_less [of count'] by simp
  ultimately have "unat i + unat (1 :: u32) < 2 ^ LENGTH(32)"
    by simp
  then have "unat (i + 1) = unat i + unat (1 :: u32)"
    by (simp only: unat_add_lem)
  with \<open>unat i < unat count'\<close> have "unat count' - unat (i + 1) < unat count' - unat i"
    by simp
  then
  show "((dev, c\<lparr>call_ptr := call_ptr c + unat (call_size c)\<rparr>, count', i + 1, invoke dev c b),
                    (dev, c, count', i, b))
                   \<in> measure (\<lambda>(dev, c, count', i, b). unat count' - unat i)"
    by simp
qed

definition memset :: "u8 list \<Rightarrow> u8 \<Rightarrow> nat \<Rightarrow> u8 list" where
  "memset data c n = replicate (min n (length data)) c @ drop n data"

text \<open>
  \<^verbatim>\<open>HandleIo(port, data, size, is_write, count, ioeventfd)\<close>. The debug log lines
  change nothing and are left out. The result is the manager and the bus after the
  call. The device and the resource are read from the handler before the promotion,
  so the invocations do not depend on what the promotion does to the table; the
  manager of the result is lost to the undefined behaviour when the promotion ends so.
\<close>

definition HandleIo ::
  "'w device_model \<Rightarrow> DeviceManager \<Rightarrow> 'w bus \<Rightarrow> u16 \<Rightarrow> u16 \<Rightarrow> s32 \<Rightarrow> u32 \<Rightarrow> bool
     \<Rightarrow> (IoHandler undefined_behaviour + DeviceManager) \<times> 'w bus" where
  "HandleIo dev s b port size' is_write count' ioeventfd =
     (case scan_handlers (pio_hit port) (pio_handlers s) 0 of
        Some (it_count, h) \<Rightarrow>
          (let resource = handler_resource h;
               device = handler_device h;
               s' = (if it_count \<ge> 3
                     then (case move_to_front (pio_handlers s) it_count of
                             Inl ub \<Rightarrow> Inl ub
                           | Inr hs \<Rightarrow> Inr (s\<lparr>pio_handlers := hs\<rparr>))
                     else Inr s);
               c = \<lparr>call_device = device, call_is_write = (is_write \<noteq> 0),
                    call_resource = resource,
                    call_offset = ucast port - resource_base resource,
                    call_ptr = 0, call_size = size'\<rparr>
           in (s', pio_loop dev c count' 0 b))
      | None \<Rightarrow>
          (Inr s, b\<lparr>bus_data := memset (bus_data b) 0xFF (unat size')\<rparr>))"

text \<open>\<^verbatim>\<open>HandleMmio(base, data, size, is_write, ioeventfd)\<close>.\<close>

definition HandleMmio ::
  "'w device_model \<Rightarrow> DeviceManager \<Rightarrow> 'w bus \<Rightarrow> u64 \<Rightarrow> u16 \<Rightarrow> s32 \<Rightarrow> bool
     \<Rightarrow> (IoHandler undefined_behaviour + DeviceManager) \<times> 'w bus" where
  "HandleMmio dev s b base size' is_write ioeventfd =
     (case scan_handlers (mmio_hit base) (mmio_handlers s) 0 of
        Some (it_count, h) \<Rightarrow>
          (let resource = handler_resource h;
               device = handler_device h;
               s' = (if it_count \<ge> 3
                     then (case move_to_front (mmio_handlers s) it_count of
                             Inl ub \<Rightarrow> Inl ub
                           | Inr hs \<Rightarrow> Inr (s\<lparr>mmio_handlers := hs\<rparr>))
                     else Inr s);
               c = \<lparr>call_device = device, call_is_write = (is_write \<noteq> 0),
                    call_resource = resource,
                    call_offset = base - resource_base resource,
                    call_ptr = 0, call_size = size'\<rparr>
           in (s', invoke dev c b))
      | None \<Rightarrow> (Inr s, b))"

section \<open>Event descriptors\<close>

text \<open>
  Modelled from the spec: \<^verbatim>\<open>IoThread::StopPolling(fd)\<close>, whose code is not among the
  sources. By its contract the I/O worker stops polling the descriptor.
\<close>

definition StopPolling :: "s32 \<Rightarrow> DeviceManager \<Rightarrow> DeviceManager" where
  "StopPolling fd s = s\<lparr>polling := removeAll fd (polling s)\<rparr>"

text \<open>\<^verbatim>\<open>std::find_if\<close>: the position of the first element that satisfies the predicate,
  \<open>None\<close> for the end iterator.\<close>

fun find_if :: "('a \<Rightarrow> bool) \<Rightarrow> 'a list \<Rightarrow> nat option" where
  "find_if P [] = None"
| "find_if P (x # xs) = (if P x then Some 0 else map_option Suc (find_if P xs))"

text \<open>\<^verbatim>\<open>UnregisterIoEvent(IoEvent* event)\<close>.\<close>

definition UnregisterIoEvent :: "kvm \<Rightarrow> DeviceManager \<Rightarrow> IoEvent \<Rightarrow> panic + DeviceManager" where
  "UnregisterIoEvent kvm s event =
     (let s1 = StopPolling (event_fd event) s
      in bind_result
           (if event_type event = kIoEventMmio \<or> event_type event = kIoEventPio
            then (let (ret, s2) = ioctl kvm
                        (KVM_IOEVENTFD (event_datamatch event) (event_address event)
                           (event_length event) (event_fd event)
                           (event_flags event OR KVM_IOEVENTFD_FLAG_DEASSIGN)) s1
                  in if ret < 0 then MV_PANIC ''failed to unregister io event'' else Inr s2)
            else Inr s1)
           (\<lambda>s3. Inr (s3\<lparr>ioevents := remove1 event (ioevents s3)\<rparr>)))"

text \<open>\<^verbatim>\<open>UnregisterIoEvent(Device* device, IoResourceType type, uint64_t address)\<close>.\<close>

definition event_matches :: "device \<Rightarrow> IoResourceType \<Rightarrow> u64 \<Rightarrow> IoEvent \<Rightarrow> bool" where
  "event_matches device type address e =
     (event_device e = device \<and> event_address e = address \<and>
      ((type = kIoResourceTypePio) = (event_flags e AND KVM_IOEVENTFD_FLAG_PIO \<noteq> 0)))"

definition UnregisterIoEventAt ::
  "kvm \<Rightarrow> DeviceManager \<Rightarrow> device \<Rightarrow> IoResourceType \<Rightarrow> u64 \<Rightarrow> panic + DeviceManager" where
  "UnregisterIoEventAt kvm s device type address =
     (case find_if (event_matches device type address) (ioevents s) of
        None \<Rightarrow> Inr s
      | Some it \<Rightarrow> UnregisterIoEvent kvm s (ioevents s ! it))"

section \<open>The GSI routing table\<close>

text \<open>\<^verbatim>\<open>UpdateGsiRoutingTable\<close>: the whole mirror is sent to the kernel.\<close>

definition UpdateGsiRoutingTable :: "kvm \<Rightarrow> DeviceManager \<Rightarrow> panic + DeviceManager" where
  "UpdateGsiRoutingTable kvm s =
     (let (ret, s') = ioctl kvm (KVM_SET_GSI_ROUTING (gsi_routing_table s)) s
      in if ret \<noteq> 0 then MV_PANIC ''KVM_SET_GSI_ROUTING'' else Inr s')"

text \<open>The lambda \<^verbatim>\<open>add_irq_routing\<close> of \<^verbatim>\<open>SetupGsiRoutingTable\<close>.\<close>

definition add_irq_routing :: "u32 \<Rightarrow> u32 \<Rightarrow> u32 \<Rightarrow> DeviceManager \<Rightarrow> DeviceManager" where
  "add_irq_routing gsi chip pin s =
     (let entry = \<lparr>entry_gsi = gsi, entry_type = KVM_IRQ_ROUTING_IRQCHIP, entry_flags = 0,
                    entry_u = Irqchip chip pin\<rparr>
      in s\<lparr>gsi_routing_table := gsi_routing_table s @ [entry]\<rparr>)"

text \<open>\<^verbatim>\<open>for (uint i = ...; i < n; i++) body\<close> on a state.\<close>

function for_uint :: "u32 \<Rightarrow> u32 \<Rightarrow> (u32 \<Rightarrow> 'a \<Rightarrow> 'a) \<Rightarrow> 'a \<Rightarrow> 'a" where
  "for_uint i n body s = (if i < n then for_uint (i + 1) n body (body i s) else s)"
  by pat_completeness auto
termination
proof (relation "measure (\<lambda>(i, n, body, s). unat n - unat i)")
  show "wf (measure (\<lambda>(i, n, body, s). unat n - unat i))"
    by simp
next
  fix i n :: u32 and body :: "u32 \<Rightarrow> 'a \<Rightarrow> 'a" and s :: 'a
  assume "i < n"
  then have lt: "unat i < unat n"
    by (simp add: word_less_nat_alt)
  moreover have "unat n < 2 ^ 32"
    using unsigned_less [of n] by simp
  ultimately have "unat i + unat (1 :: u32) < 2 ^ LENGTH(32)"
    by simp
  then have "unat (i + 1) = unat i + unat (1 :: u32)"
    by (simp only: unat_add_lem)
  with lt have "unat n - unat (i + 1) < unat n - unat i"
    by simp
  then show "((i + 1, n, body, body i s), (i, n, body, s))
               \<in> measure (\<lambda>(i, n, body, s). unat n - unat i)"
    by simp
qed

definition SetupGsiRoutingTable :: "kvm \<Rightarrow> DeviceManager \<Rightarrow> panic + DeviceManager" where
  "SetupGsiRoutingTable kvm s =
     (let s1 = for_uint 0 8 (\<lambda>i s. if i \<noteq> 2 then add_irq_routing i 0 i s else s) s;
          s2 = for_uint 0 8 (\<lambda>i s. add_irq_routing (8 + i) 1 i s) s1;
          s3 = for_uint 0 24 (\<lambda>i s. if i = 0 then add_irq_routing i 2 2 s
                                      else if i \<noteq> 2 then add_irq_routing i 2 i s
                                      else s) s2;
          s4 = s3\<lparr>next_gsi := 24\<rparr>
      in UpdateGsiRoutingTable kvm s4)"

text \<open>\<^verbatim>\<open>AddMsiRoute(address, data, trigger_fd)\<close>: the returned gsi and the new state.\<close>

definition AddMsiRoute ::
  "kvm \<Rightarrow> DeviceManager \<Rightarrow> u64 \<Rightarrow> u32 \<Rightarrow> s32 \<Rightarrow> panic + (s32 \<times> DeviceManager)" where
  "AddMsiRoute kvm s address data trigger_fd =
     (let gsi = next_gsi s;
          s1 = s\<lparr>next_gsi := next_gsi s + 1\<rparr>;
          entry = \<lparr>entry_gsi = gsi, entry_type = KVM_IRQ_ROUTING_MSI, entry_flags = 0,
                    entry_u = Msi (ucast address) (ucast (drop_bit 32 address)) data\<rparr>;
          s2 = s1\<lparr>gsi_routing_table := gsi_routing_table s1 @ [entry]\<rparr>
      in bind_result (UpdateGsiRoutingTable kvm s2) (\<lambda>s3.
           if trigger_fd \<noteq> - 1
           then (let (ret, s4) = ioctl kvm (KVM_IRQFD trigger_fd gsi 0) s3
                 in if ret < 0 then MV_PANIC ''failed to assign irqfd'' else Inr (gsi, s4))
           else Inr (gsi, s3)))"

text \<open>\<^verbatim>\<open>UpdateMsiRoute(gsi, address, data, trigger_fd)\<close>.\<close>

definition UpdateMsiRoute ::
  "kvm \<Rightarrow> DeviceManager \<Rightarrow> s32 \<Rightarrow> u64 \<Rightarrow> u32 \<Rightarrow> s32 \<Rightarrow> panic + DeviceManager" where
  "UpdateMsiRoute kvm s gsi address data trigger_fd =
     (case find_if (\<lambda>entry. entry_gsi entry = gsi) (gsi_routing_table s) of
        None \<Rightarrow> MV_PANIC ''not found gsi''
      | Some it \<Rightarrow>
          bind_result
            (if address = 0
             then bind_result
                    (if trigger_fd \<noteq> - 1
                     then (let (ret, s1) = ioctl kvm (KVM_IRQFD trigger_fd gsi KVM_IRQFD_FLAG_DEASSIGN) s
                           in if ret < 0 then MV_PANIC ''failed to assign irqfd'' else Inr s1)
                     else Inr s)
                    (\<lambda>s2. Inr (s2\<lparr>gsi_routing_table := erase (gsi_routing_table s2) it\<rparr>))
             else (let s1 = s\<lparr>gsi_routing_table := (gsi_routing_table s)
                                 [it := (gsi_routing_table s ! it)
                                    \<lparr>entry_u := Msi (ucast address) (ucast (drop_bit 32 address)) data\<rparr>]\<rparr>
                   in if trigger_fd \<noteq> - 1
                      then (let (ret, s2) = ioctl kvm (KVM_IRQFD trigger_fd gsi 0) s1
                            in if ret < 0 then MV_PANIC ''failed to assign irqfd'' else Inr s2)
                      else Inr s1))
            (UpdateGsiRoutingTable kvm))"

text \<open>A sequence of route operations, stopped by the first panic.\<close>

datatype msi_op =
    OpAddMsiRoute u64 u32 s32
  | OpUpdateMsiRoute s32 u64 u32 s32

fun run_msi_op :: "kvm \<Rightarrow> DeviceManager \<Rightarrow> msi_op \<Rightarrow> panic + DeviceManager" where
  "run_msi_op kvm s (OpAddMsiRoute address data trigger_fd) =
     bind_result (AddMsiRoute kvm s address data trigger_fd) (\<lambda>(gsi, s'). Inr s')"
| "run_msi_op kvm s (OpUpdateMsiRoute gsi address data trigger_fd) =
     UpdateMsiRoute kvm s gsi address data trigger_fd"

fun run_msi_ops :: "kvm \<Rightarrow> DeviceManager \<Rightarrow> msi_op list \<Rightarrow> panic + DeviceManager" where
  "run_msi_ops kvm s [] = Inr s"
| "run_msi_ops kvm s (op # ops) = bind_result (run_msi_op kvm s op) (\<lambda>s'. run_msi_ops kvm s' ops)"

section \<open>Vocabulary of the statements\<close>

text \<open>
  \<open>first_hit hit hs i\<close>: position \<open>i\<close> is the first of the table whose handler is hit,
  which is where the scan stops. \<open>pio_call\<close> and \<open>mmio_call\<close> are the invocations a
  dispatch makes on the matched handler: for port I/O the \<open>k\<close>-th of a string operation.
\<close>

definition pio_call :: "IoHandler \<Rightarrow> u16 \<Rightarrow> u16 \<Rightarrow> s32 \<Rightarrow> nat \<Rightarrow> IoCall" where
  "pio_call h port size' is_write k =
     \<lparr>call_device = handler_device h, call_is_write = (is_write \<noteq> 0),
      call_resource = handler_resource h,
      call_offset = ucast port - resource_base (handler_resource h),
      call_ptr = k * unat size', call_size = size'\<rparr>"

definition mmio_call :: "IoHandler \<Rightarrow> u64 \<Rightarrow> u16 \<Rightarrow> s32 \<Rightarrow> IoCall" where
  "mmio_call h base size' is_write =
     \<lparr>call_device = handler_device h, call_is_write = (is_write \<noteq> 0),
      call_resource = handler_resource h,
      call_offset = base - resource_base (handler_resource h),
      call_ptr = 0, call_size = size'\<rparr>"

definition first_hit :: "(IoHandler \<Rightarrow> bool) \<Rightarrow> IoHandler list \<Rightarrow> nat \<Rightarrow> bool" where
  "first_hit hit hs i = (i < length hs \<and> hit (hs ! i) \<and> list_all (\<lambda>h. \<not> hit h) (take i hs))"

text \<open>
  The two kinds of routing entry as the code builds them, and the table the
  specification describes for \<^verbatim>\<open>SetupGsiRoutingTable\<close>: seven lines of the master
  PIC, eight of the slave PIC, and twenty-three pins of the IOAPIC.
\<close>

definition irqchip_route :: "u32 \<Rightarrow> u32 \<Rightarrow> u32 \<Rightarrow> kvm_irq_routing_entry" where
  "irqchip_route gsi chip pin =
     \<lparr>entry_gsi = gsi, entry_type = KVM_IRQ_ROUTING_IRQCHIP, entry_flags = 0,
      entry_u = Irqchip chip pin\<rparr>"

definition msi_route :: "u32 \<Rightarrow> u64 \<Rightarrow> u32 \<Rightarrow> kvm_irq_routing_entry" where
  "msi_route gsi address data =
     \<lparr>entry_gsi = gsi, entry_type = KVM_IRQ_ROUTING_MSI, entry_flags = 0,
      entry_u = Msi (ucast address) (ucast (drop_bit 32 address)) data\<rparr>"

definition initial_routes :: "kvm_irq_routing_entry list" where
  "initial_routes =
     map (\<lambda>gsi. irqchip_route gsi 0 gsi) [0, 1, 3, 4, 5, 6, 7]
     @ map (\<lambda>gsi. irqchip_route gsi 1 (gsi - 8)) [8, 9, 10, 11, 12, 13, 14, 15]
     @ irqchip_route 0 2 2
       # map (\<lambda>gsi. irqchip_route gsi 2 gsi)
           [1, 3, 4, 5, 6, 7, 8, 9, 10, 11, 12, 13, 14, 15, 16, 17, 18, 19, 20, 21, 22, 23]"

text \<open>
  \<open>gsi_allocated\<close>: \<^verbatim>\<open>next_gsi_\<close> is a non-negative \<^verbatim>\<open>int\<close>, every entry of the mirror
  has a gsi below it, and the MSI entries have pairwise different gsis. \<open>is_add\<close> picks
  the \<^verbatim>\<open>AddMsiRoute\<close> operations of a sequence.
\<close>

definition gsi_allocated :: "DeviceManager \<Rightarrow> bool" where
  "gsi_allocated s =
     (unat (next_gsi s) \<le> 2147483647
      \<and> (\<forall>e\<in>set (gsi_routing_table s). entry_gsi e < next_gsi s)
      \<and> distinct (map entry_gsi
            (filter (\<lambda>e. entry_type e = KVM_IRQ_ROUTING_MSI) (gsi_routing_table s))))"

fun is_add :: "msi_op \<Rightarrow> bool" where
  "is_add (OpAddMsiRoute address data trigger_fd) = True"
| "is_add (OpUpdateMsiRoute gsi address data trigger_fd) = False"

section \<open>Example states\<close>

text \<open>
  A kernel that accepts every request, a device that counts its invocations, the
  manager before its constructor has run, and a manager with four port handlers and
  five memory-mapped ones; the last of these ends at the top of the 64-bit space.
\<close>

definition kvm_accept :: kvm where
  "kvm_accept history req = 0"

definition counting_device :: "nat device_model" where
  "counting_device c x = (fst x, Suc (snd x))"

definition new_manager :: DeviceManager where
  "new_manager = \<lparr>pio_handlers = [], mmio_handlers = [], ioevents = [],
                   gsi_routing_table = [], next_gsi = 0, polling = [], vm_requests = []\<rparr>"

definition pio_handler :: "u64 \<Rightarrow> u64 \<Rightarrow> device \<Rightarrow> IoHandler" where
  "pio_handler base len d =
     \<lparr>handler_resource = \<lparr>resource_type = kIoResourceTypePio, resource_base = base,
                           resource_length = len, resource_name = ''pio'',
                           resource_enabled = True\<rparr>,
      handler_device = d, handler_memory_region = None\<rparr>"

definition mmio_handler :: "u64 \<Rightarrow> u64 \<Rightarrow> device \<Rightarrow> IoHandler" where
  "mmio_handler base len d =
     \<lparr>handler_resource = \<lparr>resource_type = kIoResourceTypeMmio, resource_base = base,
                           resource_length = len, resource_name = ''mmio'',
                           resource_enabled = True\<rparr>,
      handler_device = d, handler_memory_region = Some (base, len)\<rparr>"

definition example_manager :: DeviceManager where
  "example_manager = new_manager
     \<lparr>pio_handlers := [pio_handler 0x60 4 1, pio_handler 0x70 2 2, pio_handler 0xCF8 8 3,
                       pio_handler 0x3F8 8 4],
      mmio_handlers := [mmio_handler 0xFEC00000 0x1000 5, mmio_handler 0xFED00000 0x400 6,
                        mmio_handler 0xFEE00000 0x1000 7, mmio_handler 0xC0000000 0x1000 8,
                        mmio_handler 0xFFFFFFFFFFFFF000 0x1000 9]\<rparr>"

definition example_bus :: "nat bus" where
  "example_bus = \<lparr>bus_data = [0x11, 0x22, 0x33, 0x44, 0x55, 0x66, 0x77, 0x88], bus_world = 0, bus_calls = []\<rparr>"

definition read_bus :: "nat bus" where
  "read_bus = \<lparr>bus_data = [0, 0, 0, 0], bus_world = 0, bus_calls = []\<rparr>"

text \<open>
  The manager after \<^verbatim>\<open>SetupGsiRoutingTable\<close> under the accepting kernel, after one
  \<^verbatim>\<open>AddMsiRoute\<close>, after the removal of that route, and with one memory-mapped event.
\<close>

definition booted_manager :: DeviceManager where
  "booted_manager = new_manager
     \<lparr>gsi_routing_table := initial_routes, next_gsi := 24,
      vm_requests := [KVM_SET_GSI_ROUTING initial_routes]\<rparr>"

definition routed_manager :: DeviceManager where
  "routed_manager = booted_manager
     \<lparr>gsi_routing_table := initial_routes @ [msi_route 24 0xFEE00000 0x4041], next_gsi := 25,
      vm_requests := [KVM_SET_GSI_ROUTING initial_routes,
                      KVM_SET_GSI_ROUTING (initial_routes @ [msi_route 24 0xFEE00000 0x4041])]\<rparr>"

definition unrouted_manager :: DeviceManager where
  "unrouted_manager = routed_manager
     \<lparr>gsi_routing_table := initial_routes,
      vm_requests := [KVM_SET_GSI_ROUTING initial_routes,
                      KVM_SET_GSI_ROUTING (initial_routes @ [msi_route 24 0xFEE00000 0x4041]),
                      KVM_SET_GSI_ROUTING initial_routes]\<rparr>"

definition event_manager :: DeviceManager where
  "event_manager = booted_manager
     \<lparr>ioevents := [\<lparr>event_type = kIoEventMmio, event_device = 8, event_address = 0xC000,
                     event_length = 2, event_datamatch = 1,
                     event_flags = KVM_IOEVENTFD_FLAG_DATAMATCH, event_fd = 7\<rparr>],
      polling := [7]\<rparr>"

declare pio_loop.simps [simp del]
declare for_uint.simps [simp del]

section \<open>The scan and the promotion\<close>

lemma scan_handlers_None_iff:
  "scan_handlers hit hs n = None \<longleftrightarrow> (\<forall>h\<in>set hs. \<not> hit h)"
  by (induction hs arbitrary: n) auto

lemma scan_handlers_first:
  "i < length hs \<Longrightarrow> hit (hs ! i) \<Longrightarrow> (\<forall>j<i. \<not> hit (hs ! j))
     \<Longrightarrow> scan_handlers hit hs n = Some (n + i, hs ! i)"
proof (induction hs arbitrary: n i)
  case Nil
  then show ?case by simp
next
  case (Cons h hs)
  show ?case
  proof (cases i)
    case 0
    with Cons.prems show ?thesis by simp
  next
    case (Suc k)
    with Cons.prems have "\<not> hit h" by auto
    moreover have "scan_handlers hit hs (Suc n) = Some (Suc n + k, hs ! k)"
      using Cons.prems Suc by (intro Cons.IH) auto
    ultimately show ?thesis using Suc by simp
  qed
qed

lemma first_hitD:
  "first_hit hit hs i \<Longrightarrow> i < length hs \<and> hit (hs ! i) \<and> (\<forall>j<i. \<not> hit (hs ! j))"
  by (auto simp: first_hit_def list_all_length)

lemma move_to_front_undefined:
  "move_to_front hs i = Inl (EraseInvalidated (hs ! i # hs))"
  by (simp add: move_to_front_def push_front_def deque_erase_def)

lemma pio_loop_unfold:
  "pio_loop dev c n i b = foldl (\<lambda>b k. invoke dev (c\<lparr>call_ptr := call_ptr c + k * unat (call_size c)\<rparr>) b) b [0..<unat n - unat i]"
proof (induction dev c n i b rule: pio_loop.induct)
  case (1 dev c n i b)
  show ?case
  proof (cases "i < n")
    case False
    then have "unat n - unat i = 0"
      by (simp add: word_less_nat_alt)
    with False show ?thesis
      by (simp add: pio_loop.simps)
  next
    case True
    then have lt: "unat i < unat n"
      by (simp add: word_less_nat_alt)
    moreover have "unat n < 2 ^ 32"
      using unsigned_less [of n] by simp
    ultimately have "unat i + unat (1 :: u32) < 2 ^ LENGTH(32)"
      by simp
    then have "unat (i + 1) = unat i + unat (1 :: u32)"
      by (simp only: unat_add_lem)
    then have d: "unat n - unat i = Suc (unat n - unat (i + 1))"
      using lt by simp
    have up: "[0..<Suc m] = 0 # map Suc [0..<m]" for m
      by (simp add: upt_conv_Cons map_Suc_upt del: upt_Suc)
    show ?thesis
      using True 1 [OF True]
      by (subst pio_loop.simps) (simp add: d up foldl_map add.assoc del: upt_Suc)
  qed
qed

lemma HandleIo_hit:
  assumes "first_hit (pio_hit port) (pio_handlers s) i"
  shows "HandleIo dev s b port size' is_write count' ioeventfd =
           (if 3 \<le> i then Inl (EraseInvalidated (pio_handlers s ! i # pio_handlers s)) else Inr s,
            foldl (\<lambda>b k. invoke dev (pio_call (pio_handlers s ! i) port size' is_write k) b) b
              [0..<unat count'])"
proof -
  have "scan_handlers (pio_hit port) (pio_handlers s) 0 = Some (i, pio_handlers s ! i)"
    using first_hitD [OF assms] scan_handlers_first [of i "pio_handlers s" "pio_hit port" 0]
    by simp
  then show ?thesis
    by (simp add: HandleIo_def Let_def pio_loop_unfold pio_call_def move_to_front_undefined)
qed

lemma HandleIo_miss:
  assumes "\<forall>h\<in>set (pio_handlers s). \<not> pio_hit port h"
  shows "HandleIo dev s b port size' is_write count' ioeventfd =
           (Inr s, b\<lparr>bus_data := memset (bus_data b) 0xFF (unat size')\<rparr>)"
proof -
  have "scan_handlers (pio_hit port) (pio_handlers s) 0 = None"
    using assms by (simp add: scan_handlers_None_iff)
  then show ?thesis
    by (simp add: HandleIo_def)
qed

lemma HandleMmio_hit:
  assumes "first_hit (mmio_hit base) (mmio_handlers s) i"
  shows "HandleMmio dev s b base size' is_write ioeventfd =
           (if 3 \<le> i then Inl (EraseInvalidated (mmio_handlers s ! i # mmio_handlers s)) else Inr s,
            invoke dev (mmio_call (mmio_handlers s ! i) base size' is_write) b)"
proof -
  have "scan_handlers (mmio_hit base) (mmio_handlers s) 0 = Some (i, mmio_handlers s ! i)"
    using first_hitD [OF assms] scan_handlers_first [of i "mmio_handlers s" "mmio_hit base" 0]
    by simp
  then show ?thesis
    by (simp add: HandleMmio_def Let_def mmio_call_def move_to_front_undefined)
qed



lemma memset_nth:
  "i < length data \<Longrightarrow> memset data c n ! i = (if i < n then c else data ! i)"
  by (auto simp: memset_def nth_append min_def)

lemma length_memset: "length (memset data c n) = length data"
  by (simp add: memset_def)

lemma memset_whole: "length data = n \<Longrightarrow> memset data c n = replicate n c"
  by (simp add: memset_def)

lemma replicate_2: "replicate 2 c = [c, c]"
  by (simp add: numeral_eq_Suc)

lemma example_pio_no_hit: "\<forall>h\<in>set (pio_handlers example_manager). \<not> pio_hit 0x378 h"
  by (simp add: example_manager_def new_manager_def pio_hit_def pio_handler_def)

lemma example_pio_first_hit: "first_hit (pio_hit 0x3F8) (pio_handlers example_manager) 3"
  by (simp add: first_hit_def example_manager_def new_manager_def pio_hit_def pio_handler_def
        numeral_3_eq_3 less_Suc_eq)

lemma example_mmio_first_hit: "first_hit (mmio_hit 0xC0000004) (mmio_handlers example_manager) 3"
  by (simp add: first_hit_def example_manager_def new_manager_def mmio_hit_def mmio_handler_def
        numeral_3_eq_3 less_Suc_eq)



lemma promotion_is_undefined:
  assumes "3 \<le> i"
  shows "first_hit (pio_hit port) (pio_handlers s) i \<Longrightarrow>
           fst (HandleIo dev s b port size' is_write count' ioeventfd)
             = Inl (EraseInvalidated (pio_handlers s ! i # pio_handlers s))"
    and "first_hit (mmio_hit base) (mmio_handlers s) i \<Longrightarrow>
           fst (HandleMmio dev s b base size' is_write ioeventfd)
             = Inl (EraseInvalidated (mmio_handlers s ! i # mmio_handlers s))"
  using assms by (simp_all add: HandleIo_hit HandleMmio_hit)

text \<open>
  Claim C1 says that whenever the scan of \<^verbatim>\<open>HandleIo\<close> or of \<^verbatim>\<open>HandleMmio\<close> stops at a
  handler at index 3 or more, that handler is at position 0 of its table after the
  call and the table holds the same handlers. The code does not establish this. On
  the example manager, whose fourth port handler covers port \<open>0x3F8\<close> and whose fourth
  memory-mapped handler covers \<open>0xC0000004\<close>, each dispatcher inserts the matched
  handler at the front, so that the table holds it twice, and then calls \<^verbatim>\<open>erase\<close> with
  the iterator that the insertion has invalidated: the call leaves no defined table.
\<close>

theorem promotion_erases_invalidated_iterator:
  "fst (HandleIo counting_device example_manager example_bus 0x3F8 1 0 1 False)
     = Inl (EraseInvalidated
         [pio_handler 0x3F8 8 4,
          pio_handler 0x60 4 1, pio_handler 0x70 2 2, pio_handler 0xCF8 8 3, pio_handler 0x3F8 8 4])
   \<and> fst (HandleMmio counting_device example_manager example_bus 0xC0000004 1 0 False)
     = Inl (EraseInvalidated
         [mmio_handler 0xC0000000 0x1000 8,
          mmio_handler 0xFEC00000 0x1000 5, mmio_handler 0xFED00000 0x400 6,
          mmio_handler 0xFEE00000 0x1000 7, mmio_handler 0xC0000000 0x1000 8,
          mmio_handler 0xFFFFFFFFFFFFF000 0x1000 9])"
  by (simp add: promotion_is_undefined [OF order_refl] example_pio_first_hit example_mmio_first_hit)
     (simp add: example_manager_def new_manager_def)

section \<open>Unhandled port I/O\<close>

lemma unhandled_pio_no_dispatch:
  assumes "\<forall>h\<in>set (pio_handlers s). \<not> pio_hit port h"
  shows "fst (HandleIo dev s b port size' is_write count' ioeventfd) = Inr s"
    and "bus_calls (snd (HandleIo dev s b port size' is_write count' ioeventfd)) = bus_calls b"
    and "bus_world (snd (HandleIo dev s b port size' is_write count' ioeventfd)) = bus_world b"
    and "length (bus_data b) = unat size' \<Longrightarrow>
           bus_data (snd (HandleIo dev s b port size' is_write count' ioeventfd))
             = replicate (unat size') 0xFF"
  by (simp_all add: HandleIo_miss [OF assms] memset_whole)

text \<open>
  Claim C3 says that for every port access that no handler covers \<^verbatim>\<open>HandleIo\<close> fills
  the read buffer with \<open>0xFF\<close>, invokes no device and changes no handler table. The
  code invokes no device and leaves the manager as it was (\<open>unhandled_pio_no_dispatch\<close>),
  but \<^verbatim>\<open>memset(data, 0xFF, size)\<close> fills one element only, whereas the matched path of
  the same function serves all \<open>count\<close> elements of a string access: an unhandled read
  of two elements of two bytes into a zeroed buffer returns \<open>0xFF\<close> in the first element
  and leaves the second as it was.
\<close>

theorem unhandled_string_read_fills_one_element:
  "HandleIo counting_device example_manager read_bus 0x378 2 0 2 False
     = (Inr example_manager, read_bus\<lparr>bus_data := [0xFF, 0xFF, 0, 0]\<rparr>)
   \<and> bus_data (snd (HandleIo counting_device example_manager read_bus 0x378 2 0 2 False))
       \<noteq> [0xFF, 0xFF, 0xFF, 0xFF]"
  by (simp add: HandleIo_miss [OF example_pio_no_hit] memset_def read_bus_def replicate_2)

text \<open>
  Claim C9. For an unhandled port access \<^verbatim>\<open>HandleIo\<close> writes \<open>0xFF\<close> to exactly the
  first \<open>size\<close> bytes of the buffer whatever \<open>count\<close> is: every byte from index \<open>size\<close>
  on is left as it was, and the outcome is the one of the same call with \<open>count = 1\<close>.
\<close>

theorem unhandled_pio_fills_size_bytes:
  assumes "\<forall>h\<in>set (pio_handlers s). \<not> pio_hit port h"
  shows "length (bus_data (snd (HandleIo dev s b port size' is_write count' ioeventfd)))
           = length (bus_data b)
       \<and> (\<forall>i<length (bus_data b).
             bus_data (snd (HandleIo dev s b port size' is_write count' ioeventfd)) ! i
               = (if i < unat size' then 0xFF else bus_data b ! i))
       \<and> (unat size' \<le> length (bus_data b) \<longrightarrow>
             bus_data (snd (HandleIo dev s b port size' is_write count' ioeventfd))
               = replicate (unat size') 0xFF @ drop (unat size') (bus_data b))
       \<and> HandleIo dev s b port size' is_write count' ioeventfd
           = HandleIo dev s b port size' is_write 1 ioeventfd"
  by (simp add: HandleIo_miss [OF assms] memset_nth length_memset) (simp add: memset_def)

theorem unhandled_pio_fills_size_bytes_witness:
  "list_all (\<lambda>h. \<not> pio_hit 0x378 h) (pio_handlers example_manager)
   \<and> bus_data (snd (HandleIo counting_device example_manager example_bus 0x378 2 0 4 False))
       = [0xFF, 0xFF, 0x33, 0x44, 0x55, 0x66, 0x77, 0x88]"
proof -
  have "unat (2 :: u16) \<le> length (bus_data example_bus)"
    by (simp add: example_bus_def)
  with unhandled_pio_fills_size_bytes [OF example_pio_no_hit, of counting_device example_bus 2 0 4 False]
  have "bus_data (snd (HandleIo counting_device example_manager example_bus 0x378 2 0 4 False))
          = replicate (unat (2 :: u16)) 0xFF @ drop (unat (2 :: u16)) (bus_data example_bus)"
    by blast
  then show ?thesis
    using example_pio_no_hit by (simp add: example_bus_def replicate_2 list_all_iff)
qed

section \<open>String operations on a port\<close>




section \<open>Memory-mapped accesses\<close>




section \<open>The GSI routing table: setup\<close>

lemma find_if_None_iff: "find_if P xs = None \<longleftrightarrow> (\<forall>x\<in>set xs. \<not> P x)"
  by (induction xs) auto

lemma find_if_SomeD:
  "find_if P xs = Some i \<Longrightarrow> i < length xs \<and> P (xs ! i) \<and> (\<forall>j<i. \<not> P (xs ! j))"
proof (induction xs arbitrary: i)
  case Nil
  then show ?case by simp
next
  case (Cons x xs)
  show ?case
  proof (cases "P x")
    case True
    with Cons.prems show ?thesis by simp
  next
    case False
    with Cons.prems obtain k where k: "find_if P xs = Some k" "i = Suc k"
      by auto
    from Cons.IH [OF k(1)] False k(2) show ?thesis
      by (auto simp: less_Suc_eq_0_disj)
  qed
qed

lemma UpdateGsiRoutingTable_Inr:
  "UpdateGsiRoutingTable kvm s = Inr s' \<longleftrightarrow>
     kvm (vm_requests s) (KVM_SET_GSI_ROUTING (gsi_routing_table s)) = 0
     \<and> s' = s\<lparr>vm_requests := vm_requests s @ [KVM_SET_GSI_ROUTING (gsi_routing_table s)]\<rparr>"
  by (auto simp: UpdateGsiRoutingTable_def ioctl_def MV_PANIC_def)

lemma setup_loops:
  "for_uint 0 24 (\<lambda>i s. if i = 0 then add_irq_routing i 2 2 s
                          else if i \<noteq> 2 then add_irq_routing i 2 i s else s)
     (for_uint 0 8 (\<lambda>i s. add_irq_routing (8 + i) 1 i s)
        (for_uint 0 8 (\<lambda>i s. if i \<noteq> 2 then add_irq_routing i 0 i s else s) s))
   = s\<lparr>gsi_routing_table := gsi_routing_table s @ initial_routes\<rparr>"
  by (simp add: for_uint.simps add_irq_routing_def initial_routes_def irqchip_route_def)

lemma SetupGsiRoutingTable_Inr:
  "SetupGsiRoutingTable kvm s = Inr s' \<longleftrightarrow>
     kvm (vm_requests s) (KVM_SET_GSI_ROUTING (gsi_routing_table s @ initial_routes)) = 0
     \<and> s' = s\<lparr>gsi_routing_table := gsi_routing_table s @ initial_routes, next_gsi := 24,
              vm_requests := vm_requests s @ [KVM_SET_GSI_ROUTING (gsi_routing_table s @ initial_routes)]\<rparr>"
  by (auto simp: SetupGsiRoutingTable_def setup_loops UpdateGsiRoutingTable_Inr)

lemma SetupGsiRoutingTable_new_manager:
  "SetupGsiRoutingTable kvm_accept new_manager = Inr booted_manager"
  by (simp add: SetupGsiRoutingTable_Inr kvm_accept_def booted_manager_def new_manager_def)

text \<open>
  Claim C2. After \<^verbatim>\<open>SetupGsiRoutingTable\<close> on the empty mirror of a new manager, the
  mirror holds exactly 38 entries: 7 for the master PIC (chip 0; gsi 0, 1, 3..7, pin =
  gsi), 8 for the slave PIC (chip 1; gsi 8..15, pin = gsi - 8) and 23 for the IOAPIC
  (chip 2; gsi 0 on pin 2, and gsi 1 and 3..23 on pin = gsi); \<^verbatim>\<open>next_gsi_\<close> is 24.
\<close>

theorem initial_gsi_routing_table:
  assumes "SetupGsiRoutingTable kvm s = Inr s'" and "gsi_routing_table s = []"
  shows "gsi_routing_table s' =
           map (\<lambda>gsi. irqchip_route gsi 0 gsi) [0, 1, 3, 4, 5, 6, 7]
           @ map (\<lambda>gsi. irqchip_route gsi 1 (gsi - 8)) [8, 9, 10, 11, 12, 13, 14, 15]
           @ irqchip_route 0 2 2
             # map (\<lambda>gsi. irqchip_route gsi 2 gsi)
                 [1, 3, 4, 5, 6, 7, 8, 9, 10, 11, 12, 13, 14, 15, 16, 17, 18, 19, 20, 21, 22, 23]
       \<and> length (gsi_routing_table s') = 38
       \<and> length (filter (\<lambda>e. \<exists>pin. entry_u e = Irqchip 0 pin) (gsi_routing_table s')) = 7
       \<and> length (filter (\<lambda>e. \<exists>pin. entry_u e = Irqchip 1 pin) (gsi_routing_table s')) = 8
       \<and> length (filter (\<lambda>e. \<exists>pin. entry_u e = Irqchip 2 pin) (gsi_routing_table s')) = 23
       \<and> next_gsi s' = 24"
proof -
  from assms have t: "gsi_routing_table s' = initial_routes" and n: "next_gsi s' = 24"
    by (simp_all add: SetupGsiRoutingTable_Inr)
  show ?thesis
    unfolding t n by (simp add: initial_routes_def irqchip_route_def)
qed

theorem initial_gsi_routing_table_witness:
  "SetupGsiRoutingTable kvm_accept new_manager = Inr booted_manager
   \<and> gsi_routing_table new_manager = []
   \<and> length (gsi_routing_table booted_manager) = 38
   \<and> next_gsi booted_manager = 24"
proof -
  have e: "gsi_routing_table new_manager = []"
    by (simp add: new_manager_def)
  from initial_gsi_routing_table [OF SetupGsiRoutingTable_new_manager e]
  show ?thesis
    using SetupGsiRoutingTable_new_manager e by simp
qed

section \<open>The GSI routing table: MSI routes\<close>

lemma AddMsiRoute_Inr:
  "AddMsiRoute kvm s address data trigger_fd = Inr (gsi, s') \<Longrightarrow>
     gsi = next_gsi s
     \<and> next_gsi s' = next_gsi s + 1
     \<and> gsi_routing_table s' = gsi_routing_table s @ [msi_route (next_gsi s) address data]
     \<and> pio_handlers s' = pio_handlers s \<and> mmio_handlers s' = mmio_handlers s
     \<and> ioevents s' = ioevents s \<and> polling s' = polling s"
  by (auto simp: AddMsiRoute_def bind_result_def UpdateGsiRoutingTable_Inr ioctl_def MV_PANIC_def
        msi_route_def Let_def split: sum.splits if_splits)

lemma UpdateMsiRoute_missing:
  "\<forall>e\<in>set (gsi_routing_table s). entry_gsi e \<noteq> gsi \<Longrightarrow>
     UpdateMsiRoute kvm s gsi address data trigger_fd = Inl (Panic ''not found gsi'')"
proof -
  assume "\<forall>e\<in>set (gsi_routing_table s). entry_gsi e \<noteq> gsi"
  then have "find_if (\<lambda>entry. entry_gsi entry = gsi) (gsi_routing_table s) = None"
    by (simp add: find_if_None_iff)
  then show ?thesis
    by (simp add: UpdateMsiRoute_def MV_PANIC_def)
qed

lemma UpdateMsiRoute_Inr:
  "UpdateMsiRoute kvm s gsi address data trigger_fd = Inr s' \<Longrightarrow>
     \<exists>it. find_if (\<lambda>entry. entry_gsi entry = gsi) (gsi_routing_table s) = Some it
       \<and> gsi_routing_table s' =
            (if address = 0 then erase (gsi_routing_table s) it
             else (gsi_routing_table s)
                    [it := (gsi_routing_table s ! it)
                       \<lparr>entry_u := Msi (ucast address) (ucast (drop_bit 32 address)) data\<rparr>])
       \<and> next_gsi s' = next_gsi s
       \<and> pio_handlers s' = pio_handlers s \<and> mmio_handlers s' = mmio_handlers s
       \<and> ioevents s' = ioevents s \<and> polling s' = polling s"
  by (auto simp: UpdateMsiRoute_def bind_result_def UpdateGsiRoutingTable_Inr ioctl_def MV_PANIC_def
        Let_def split: option.splits sum.splits if_splits)

lemma distinct_map_filter_erase:
  assumes "distinct (map f (filter P xs))"
  shows "distinct (map f (filter P (erase xs i)))"
proof (cases "i < length xs")
  case True
  then have "xs = take i xs @ xs ! i # drop (Suc i) xs"
    by (simp add: id_take_nth_drop)
  then have "distinct (map f (filter P (take i xs @ xs ! i # drop (Suc i) xs)))"
    using assms by simp
  then show ?thesis
    by (auto simp: erase_def split: if_splits)
next
  case False
  then show ?thesis
    using assms by (simp add: erase_def)
qed

lemma set_erase_subset: "set (erase xs i) \<subseteq> set xs"
  by (auto simp: erase_def dest: in_set_takeD in_set_dropD)

lemma map_filter_update_same:
  assumes "\<And>x. f (g x) = f x" and "\<And>x. P (g x) = P x"
  shows "map f (filter P (xs[i := g (xs ! i)])) = map f (filter P xs)"
  using assms
proof (induction xs arbitrary: i)
  case Nil
  then show ?case by simp
next
  case (Cons x xs)
  then show ?case by (cases i) simp_all
qed

lemma gsi_allocated_AddMsiRoute:
  assumes "gsi_allocated s" and "AddMsiRoute kvm s address data trigger_fd = Inr (gsi, s')"
    and "unat (next_gsi s) < 2147483647"
  shows "gsi_allocated s'" and "unat (next_gsi s') = Suc (unat (next_gsi s))"
    and "\<forall>e\<in>set (gsi_routing_table s). entry_gsi e \<noteq> gsi"
proof -
  note r = AddMsiRoute_Inr [OF assms(2)]
  have "unat (next_gsi s) + unat (1 :: u32) < 2 ^ LENGTH(32)"
    using assms(3) by simp
  then have "unat (next_gsi s + 1) = unat (next_gsi s) + unat (1 :: u32)"
    by (simp only: unat_add_lem)
  then show n: "unat (next_gsi s') = Suc (unat (next_gsi s))"
    using r by simp
  then have lt: "next_gsi s < next_gsi s'"
    by (simp add: word_less_nat_alt)
  show f: "\<forall>e\<in>set (gsi_routing_table s). entry_gsi e \<noteq> gsi"
    using assms(1) r by (auto simp: gsi_allocated_def)
  have "\<forall>e\<in>set (gsi_routing_table s'). entry_gsi e < next_gsi s'"
    using assms(1) r lt by (auto simp: gsi_allocated_def msi_route_def)
  moreover have "distinct (map entry_gsi
            (filter (\<lambda>e. entry_type e = KVM_IRQ_ROUTING_MSI) (gsi_routing_table s')))"
    using assms(1) r f by (auto simp: gsi_allocated_def msi_route_def)
  moreover have "unat (next_gsi s') \<le> 2147483647"
    using n assms(3) by simp
  ultimately show "gsi_allocated s'"
    by (simp add: gsi_allocated_def)
qed

lemma gsi_allocated_UpdateMsiRoute:
  assumes "gsi_allocated s" and "UpdateMsiRoute kvm s gsi address data trigger_fd = Inr s'"
  shows "gsi_allocated s'" and "next_gsi s' = next_gsi s"
proof -
  from UpdateMsiRoute_Inr [OF assms(2)] obtain it where
    t: "gsi_routing_table s' =
            (if address = 0 then erase (gsi_routing_table s) it
             else (gsi_routing_table s)
                    [it := (gsi_routing_table s ! it)
                       \<lparr>entry_u := Msi (ucast address) (ucast (drop_bit 32 address)) data\<rparr>])"
    and n: "next_gsi s' = next_gsi s"
    and f: "find_if (\<lambda>entry. entry_gsi entry = gsi) (gsi_routing_table s) = Some it"
    by blast
  show "next_gsi s' = next_gsi s"
    by (rule n)
  from find_if_SomeD [OF f] have it: "it < length (gsi_routing_table s)"
    by simp
  show "gsi_allocated s'"
  proof (cases "address = 0")
    case True
    then show ?thesis
      using assms(1) t n set_erase_subset [of "gsi_routing_table s" it]
      by (auto simp: gsi_allocated_def distinct_map_filter_erase)
  next
    case False
    let ?g = "\<lambda>e. e\<lparr>entry_u := Msi (ucast address) (ucast (drop_bit 32 address)) data\<rparr>"
    have m: "map entry_gsi (filter (\<lambda>e. entry_type e = KVM_IRQ_ROUTING_MSI)
                ((gsi_routing_table s)[it := ?g (gsi_routing_table s ! it)]))
             = map entry_gsi (filter (\<lambda>e. entry_type e = KVM_IRQ_ROUTING_MSI) (gsi_routing_table s))"
      by (rule map_filter_update_same) simp_all
    have "\<forall>e\<in>set ((gsi_routing_table s)[it := ?g (gsi_routing_table s ! it)]). entry_gsi e < next_gsi s"
    proof
      fix e
      assume "e \<in> set ((gsi_routing_table s)[it := ?g (gsi_routing_table s ! it)])"
      then have "e = ?g (gsi_routing_table s ! it) \<or> e \<in> set (gsi_routing_table s)"
        using set_update_subset_insert [of "gsi_routing_table s" it] by auto
      then show "entry_gsi e < next_gsi s"
        using assms(1) it by (auto simp: gsi_allocated_def)
    qed
    then show ?thesis
      using assms(1) False t n m by (simp add: gsi_allocated_def)
  qed
qed

lemma initial_routes_below_24: "\<forall>e\<in>set initial_routes. entry_gsi e < 24"
  by (simp add: initial_routes_def irqchip_route_def)

lemma initial_routes_no_msi:
  "filter (\<lambda>e. entry_type e = KVM_IRQ_ROUTING_MSI) initial_routes = []"
  by (simp add: initial_routes_def irqchip_route_def KVM_IRQ_ROUTING_MSI_def
        KVM_IRQ_ROUTING_IRQCHIP_def)

lemma gsi_allocated_booted_manager: "gsi_allocated booted_manager"
  using initial_routes_below_24
  by (simp add: gsi_allocated_def booted_manager_def new_manager_def initial_routes_no_msi)

lemma find_if_append_last:
  "\<forall>x\<in>set xs. \<not> P x \<Longrightarrow> P y \<Longrightarrow> find_if P (xs @ [y]) = Some (length xs)"
  by (induction xs) simp_all

lemma erase_append_last: "erase (xs @ [y]) (length xs) = xs"
  by (simp add: erase_def)

lemma AddMsiRoute_booted_manager:
  "AddMsiRoute kvm_accept booted_manager 0xFEE00000 0x4041 (- 1) = Inr (24, routed_manager)"
  by (simp add: AddMsiRoute_def UpdateGsiRoutingTable_def ioctl_def kvm_accept_def bind_result_def
        routed_manager_def booted_manager_def new_manager_def msi_route_def Let_def)

lemma UpdateMsiRoute_routed_manager:
  "UpdateMsiRoute kvm_accept routed_manager 24 0 0 (- 1) = Inr unrouted_manager"
proof -
  have "\<forall>x\<in>set initial_routes. \<not> entry_gsi x = 24"
    using initial_routes_below_24 by auto
  then have "find_if (\<lambda>entry. entry_gsi entry = 24) (gsi_routing_table routed_manager)
               = Some (length initial_routes)"
    by (simp add: routed_manager_def find_if_append_last msi_route_def)
  then show ?thesis
    by (simp add: UpdateMsiRoute_def UpdateGsiRoutingTable_def ioctl_def kvm_accept_def
          bind_result_def unrouted_manager_def routed_manager_def erase_append_last)
qed

lemma run_msi_ops_booted_manager:
  "run_msi_ops kvm_accept booted_manager
     [OpAddMsiRoute 0xFEE00000 0x4041 (- 1), OpUpdateMsiRoute 24 0 0 (- 1)] = Inr unrouted_manager"
  by (simp add: bind_result_def AddMsiRoute_booted_manager UpdateMsiRoute_routed_manager)

lemma gsi_allocated_run_msi_ops:
  "gsi_allocated s \<Longrightarrow> run_msi_ops kvm s ops = Inr s'
     \<Longrightarrow> unat (next_gsi s) + length (filter is_add ops) \<le> 2147483647
     \<Longrightarrow> gsi_allocated s' \<and> unat (next_gsi s') = unat (next_gsi s) + length (filter is_add ops)"
proof (induction ops arbitrary: s)
  case Nil
  then show ?case by simp
next
  case (Cons op ops)
  from Cons.prems(2) obtain s1 where s1: "run_msi_op kvm s op = Inr s1"
    and rest: "run_msi_ops kvm s1 ops = Inr s'"
    by (auto simp: bind_result_def split: sum.splits)
  show ?case
  proof (cases op)
    case (OpAddMsiRoute address data trigger_fd)
    with s1 obtain gsi where a: "AddMsiRoute kvm s address data trigger_fd = Inr (gsi, s1)"
      by (auto simp: bind_result_def split: sum.splits)
    have b: "unat (next_gsi s) < 2147483647"
      using Cons.prems(3) OpAddMsiRoute by simp
    note st = gsi_allocated_AddMsiRoute [OF Cons.prems(1) a b]
    have "unat (next_gsi s1) + length (filter is_add ops) \<le> 2147483647"
      using st(2) Cons.prems(3) OpAddMsiRoute by simp
    from Cons.IH [OF st(1) rest this] show ?thesis
      using st(2) OpAddMsiRoute by simp
  next
    case (OpUpdateMsiRoute gsi address data trigger_fd)
    with s1 have u: "UpdateMsiRoute kvm s gsi address data trigger_fd = Inr s1"
      by simp
    note st = gsi_allocated_UpdateMsiRoute [OF Cons.prems(1) u]
    have "unat (next_gsi s1) + length (filter is_add ops) \<le> 2147483647"
      using st(2) Cons.prems(3) OpUpdateMsiRoute by simp
    from Cons.IH [OF st(1) rest this] show ?thesis
      using st(2) OpUpdateMsiRoute by simp
  qed
qed

lemma length_erase: "i < length xs \<Longrightarrow> length (erase xs i) = length xs - 1"
  by (simp add: erase_def)

lemma filter_erase_other:
  assumes "i < length xs" and "\<not> P (xs ! i)"
  shows "filter P (erase xs i) = filter P xs"
proof -
  have "xs = take i xs @ xs ! i # drop (Suc i) xs"
    using assms(1) by (simp add: id_take_nth_drop)
  then have "filter P xs = filter P (take i xs @ xs ! i # drop (Suc i) xs)"
    by simp
  then show ?thesis
    using assms(2) by (simp add: erase_def)
qed

lemma filter_erase_same:
  assumes "i < length xs" and "P (xs ! i)"
  shows "Suc (length (filter P (erase xs i))) = length (filter P xs)"
proof -
  have "xs = take i xs @ xs ! i # drop (Suc i) xs"
    using assms(1) by (simp add: id_take_nth_drop)
  then have "filter P xs = filter P (take i xs @ xs ! i # drop (Suc i) xs)"
    by simp
  then show ?thesis
    using assms(2) by (simp add: erase_def)
qed

text \<open>Under a kernel that accepts every request the operations return; only a gsi
  that no entry has stops \<^verbatim>\<open>UpdateMsiRoute\<close>.\<close>

lemma SetupGsiRoutingTable_returns: "\<not> isl (SetupGsiRoutingTable kvm_accept s)"
  by (simp add: SetupGsiRoutingTable_def setup_loops UpdateGsiRoutingTable_def ioctl_def
        kvm_accept_def)

lemma AddMsiRoute_returns: "\<not> isl (AddMsiRoute kvm_accept s address data trigger_fd)"
  by (simp add: AddMsiRoute_def UpdateGsiRoutingTable_def ioctl_def kvm_accept_def
        bind_result_def Let_def)

lemma UpdateMsiRoute_returns:
  assumes "\<exists>e\<in>set (gsi_routing_table s). entry_gsi e = gsi"
  shows "\<not> isl (UpdateMsiRoute kvm_accept s gsi address data trigger_fd)"
proof -
  from assms obtain it where "find_if (\<lambda>entry. entry_gsi entry = gsi) (gsi_routing_table s) = Some it"
    using find_if_None_iff [of "\<lambda>entry. entry_gsi entry = gsi" "gsi_routing_table s"]
    by (cases "find_if (\<lambda>entry. entry_gsi entry = gsi) (gsi_routing_table s)") auto
  then show ?thesis
    by (simp add: UpdateMsiRoute_def UpdateGsiRoutingTable_def ioctl_def kvm_accept_def
          bind_result_def Let_def)
qed

text \<open>
  Claim C5, as amended. Every call of \<^verbatim>\<open>AddMsiRoute\<close> that returns gives back the value
  \<^verbatim>\<open>next_gsi_\<close> had before the call, increments \<^verbatim>\<open>next_gsi_\<close> by one and appends one
  MSI entry with that gsi and the given address and data to the mirror. Across any
  sequence of \<^verbatim>\<open>AddMsiRoute\<close> and \<^verbatim>\<open>UpdateMsiRoute\<close> operations that starts in a state
  where every entry's gsi is below \<^verbatim>\<open>next_gsi_\<close> and the MSI entries have different
  gsis (as after \<^verbatim>\<open>SetupGsiRoutingTable\<close>), and that keeps \<^verbatim>\<open>next_gsi_\<close> within the
  range of \<^verbatim>\<open>int\<close>, \<^verbatim>\<open>next_gsi_\<close> never decreases and grows by exactly one with each
  \<^verbatim>\<open>AddMsiRoute\<close>, every entry's gsi stays below it, and no two MSI entries share a
  gsi.
\<close>

theorem msi_gsi_allocation:
  "(AddMsiRoute kvm s address data trigger_fd = Inr (gsi, s1) \<longrightarrow>
      gsi = next_gsi s
      \<and> next_gsi s1 = next_gsi s + 1
      \<and> gsi_routing_table s1 = gsi_routing_table s @ [msi_route gsi address data])
   \<and> (gsi_allocated s \<and> run_msi_ops kvm s ops = Inr s'
        \<and> unat (next_gsi s) + length (filter is_add ops) \<le> 2147483647 \<longrightarrow>
      unat (next_gsi s') = unat (next_gsi s) + length (filter is_add ops)
      \<and> distinct (map entry_gsi
            (filter (\<lambda>e. entry_type e = KVM_IRQ_ROUTING_MSI) (gsi_routing_table s')))
      \<and> (\<forall>e\<in>set (gsi_routing_table s'). entry_gsi e < next_gsi s')
      \<and> gsi_allocated s')"
proof (intro conjI impI)
  assume "gsi_allocated s \<and> run_msi_ops kvm s ops = Inr s'
        \<and> unat (next_gsi s) + length (filter is_add ops) \<le> 2147483647"
  then have r: "gsi_allocated s' \<and> unat (next_gsi s') = unat (next_gsi s) + length (filter is_add ops)"
    using gsi_allocated_run_msi_ops [of s kvm ops s'] by simp
  then show "unat (next_gsi s') = unat (next_gsi s) + length (filter is_add ops)"
    and "gsi_allocated s'"
    by simp_all
  from r show "distinct (map entry_gsi
            (filter (\<lambda>e. entry_type e = KVM_IRQ_ROUTING_MSI) (gsi_routing_table s')))"
    and "\<forall>e\<in>set (gsi_routing_table s'). entry_gsi e < next_gsi s'"
    by (simp_all add: gsi_allocated_def)
qed (auto dest: AddMsiRoute_Inr)

theorem msi_gsi_allocation_witness:
  "AddMsiRoute kvm_accept booted_manager 0xFEE00000 0x4041 (- 1) = Inr (24, routed_manager)
   \<and> gsi_allocated booted_manager
   \<and> run_msi_ops kvm_accept booted_manager
        [OpAddMsiRoute 0xFEE00000 0x4041 (- 1), OpUpdateMsiRoute 24 0 0 (- 1)] = Inr unrouted_manager
   \<and> next_gsi booted_manager = 24
   \<and> next_gsi routed_manager = 24 + 1
   \<and> gsi_routing_table routed_manager
       = gsi_routing_table booted_manager @ [msi_route 24 0xFEE00000 0x4041]
   \<and> unat (next_gsi unrouted_manager) = 25
   \<and> gsi_allocated unrouted_manager"
proof -
  have n: "next_gsi booted_manager = 24"
    by (simp add: booted_manager_def new_manager_def)
  have b: "unat (next_gsi booted_manager)
             + length (filter is_add [OpAddMsiRoute 0xFEE00000 0x4041 (- 1), OpUpdateMsiRoute 24 0 0 (- 1)])
           \<le> 2147483647"
    by (simp add: n)
  show ?thesis
    using msi_gsi_allocation [where kvm = kvm_accept and s = booted_manager
        and address = "0xFEE00000" and data = "0x4041" and trigger_fd = "- 1" and gsi = 24
        and ?s1.0 = routed_manager and s' = unrouted_manager
        and ops = "[OpAddMsiRoute 0xFEE00000 0x4041 (- 1), OpUpdateMsiRoute 24 0 0 (- 1)]"]
      AddMsiRoute_booted_manager gsi_allocated_booted_manager run_msi_ops_booted_manager b
    by (simp add: n)
qed

text \<open>
  The claim as stated lets no two entries of the mirror share a gsi. The table that
  \<^verbatim>\<open>SetupGsiRoutingTable\<close> builds routes gsi 0 (and 1, 3..15) to a PIC and to the
  IOAPIC, so two entries share a gsi from the start and after every
  \<^verbatim>\<open>AddMsiRoute\<close>.
\<close>

theorem shared_gsi_counterexample:
  "SetupGsiRoutingTable kvm_accept new_manager = Inr booted_manager
   \<and> AddMsiRoute kvm_accept booted_manager 0xFEE00000 0x4041 (- 1) = Inr (24, routed_manager)
   \<and> \<not> distinct (map entry_gsi (gsi_routing_table routed_manager))"
  by (simp add: SetupGsiRoutingTable_new_manager AddMsiRoute_booted_manager)
     (simp add: routed_manager_def booted_manager_def new_manager_def initial_routes_def
        irqchip_route_def)

text \<open>
  Claim C6. In every state of the mirror, \<^verbatim>\<open>AddMsiRoute(a, d, fd)\<close> returning \<open>gsi\<close>
  followed by \<^verbatim>\<open>UpdateMsiRoute(gsi, 0, 0, fd)\<close> removes one entry with that gsi and
  touches no entry with another gsi, so the mirror has the size it had before the
  \<^verbatim>\<open>AddMsiRoute\<close>; when no entry had that gsi before, the mirror is the one before the
  \<^verbatim>\<open>AddMsiRoute\<close>.
\<close>

theorem add_then_remove_msi_route:
  assumes "AddMsiRoute kvm s address data trigger_fd = Inr (gsi, s1)"
    and "UpdateMsiRoute kvm s1 gsi 0 0 trigger_fd = Inr s2"
  shows "gsi_routing_table s1 = gsi_routing_table s @ [msi_route gsi address data]
       \<and> length (gsi_routing_table s2) = length (gsi_routing_table s)
       \<and> Suc (length (filter (\<lambda>e. entry_gsi e = gsi) (gsi_routing_table s2)))
           = length (filter (\<lambda>e. entry_gsi e = gsi) (gsi_routing_table s1))
       \<and> filter (\<lambda>e. entry_gsi e \<noteq> gsi) (gsi_routing_table s2)
           = filter (\<lambda>e. entry_gsi e \<noteq> gsi) (gsi_routing_table s)
       \<and> ((\<forall>e\<in>set (gsi_routing_table s). entry_gsi e \<noteq> gsi) \<longrightarrow>
             gsi_routing_table s2 = gsi_routing_table s)"
proof -
  note a = AddMsiRoute_Inr [OF assms(1)]
  then have t1: "gsi_routing_table s1 = gsi_routing_table s @ [msi_route gsi address data]"
    by simp
  from UpdateMsiRoute_Inr [OF assms(2)] obtain it where
    f: "find_if (\<lambda>entry. entry_gsi entry = gsi) (gsi_routing_table s1) = Some it"
    and t2: "gsi_routing_table s2 = erase (gsi_routing_table s1) it"
    by auto
  note i = find_if_SomeD [OF f]
  have "length (gsi_routing_table s2) = length (gsi_routing_table s)"
    using i t1 t2 by (simp add: length_erase)
  moreover have "Suc (length (filter (\<lambda>e. entry_gsi e = gsi) (gsi_routing_table s2)))
           = length (filter (\<lambda>e. entry_gsi e = gsi) (gsi_routing_table s1))"
    using i t2 by (simp add: filter_erase_same)
  moreover have "filter (\<lambda>e. entry_gsi e \<noteq> gsi) (gsi_routing_table s2)
           = filter (\<lambda>e. entry_gsi e \<noteq> gsi) (gsi_routing_table s)"
    using i t1 t2 by (simp add: filter_erase_other msi_route_def)
  moreover have "gsi_routing_table s2 = gsi_routing_table s"
    if "\<forall>e\<in>set (gsi_routing_table s). entry_gsi e \<noteq> gsi"
  proof -
    have "find_if (\<lambda>entry. entry_gsi entry = gsi) (gsi_routing_table s1)
            = Some (length (gsi_routing_table s))"
      unfolding t1 using that by (intro find_if_append_last) (simp_all add: msi_route_def)
    with f have "it = length (gsi_routing_table s)"
      by simp
    then show ?thesis
      using t1 t2 by (simp add: erase_append_last)
  qed
  ultimately show ?thesis
    using t1 by blast
qed

theorem add_then_remove_msi_route_witness:
  "AddMsiRoute kvm_accept booted_manager 0xFEE00000 0x4041 (- 1) = Inr (24, routed_manager)
   \<and> UpdateMsiRoute kvm_accept routed_manager 24 0 0 (- 1) = Inr unrouted_manager
   \<and> list_all (\<lambda>e. entry_gsi e \<noteq> 24) (gsi_routing_table booted_manager)
   \<and> length (gsi_routing_table unrouted_manager) = length (gsi_routing_table booted_manager)
   \<and> gsi_routing_table unrouted_manager = gsi_routing_table booted_manager"
proof -
  have "\<forall>e\<in>set (gsi_routing_table booted_manager). entry_gsi e \<noteq> 24"
    using initial_routes_below_24 by (auto simp: booted_manager_def new_manager_def)
  then show ?thesis
    using add_then_remove_msi_route [OF AddMsiRoute_booted_manager UpdateMsiRoute_routed_manager]
      AddMsiRoute_booted_manager UpdateMsiRoute_routed_manager
    by (simp add: list_all_iff)
qed

text \<open>
  Claim C8. When no entry of the mirror has the given gsi, \<^verbatim>\<open>UpdateMsiRoute\<close> ends in
  the panic \<^verbatim>\<open>not found gsi\<close>, whatever the kernel answers: it never returns a state,
  modified or not.
\<close>

theorem update_missing_gsi_is_fatal:
  assumes "\<forall>e\<in>set (gsi_routing_table s). entry_gsi e \<noteq> gsi"
  shows "UpdateMsiRoute kvm s gsi address data trigger_fd = Inl (Panic ''not found gsi'')
       \<and> (\<forall>s'. UpdateMsiRoute kvm s gsi address data trigger_fd \<noteq> Inr s')"
  by (simp add: UpdateMsiRoute_missing [OF assms])

theorem update_missing_gsi_is_fatal_witness:
  "list_all (\<lambda>e. entry_gsi e \<noteq> 24) (gsi_routing_table booted_manager)
   \<and> UpdateMsiRoute kvm_accept booted_manager 24 0xFEE00000 0x4041 (- 1)
       = Inl (Panic ''not found gsi'')"
proof -
  have m: "\<forall>e\<in>set (gsi_routing_table booted_manager). entry_gsi e \<noteq> 24"
    using initial_routes_below_24 by (auto simp: booted_manager_def new_manager_def)
  from update_missing_gsi_is_fatal [OF m, of kvm_accept "0xFEE00000" "0x4041" "- 1"] m
  show ?thesis
    by (simp add: list_all_iff)
qed

section \<open>Unregistering an event by address\<close>

lemma UnregisterIoEventAt_returns:
  "\<not> isl (UnregisterIoEventAt kvm_accept s device type address)"
  by (simp add: UnregisterIoEventAt_def UnregisterIoEvent_def ioctl_def kvm_accept_def
        bind_result_def Let_def split: option.splits)

lemma UnregisterIoEventAt_found:
  "UnregisterIoEventAt kvm_accept event_manager 8 kIoResourceTypeMmio 0xC000
     = Inr (booted_manager
         \<lparr>vm_requests := [KVM_SET_GSI_ROUTING initial_routes,
                          KVM_IOEVENTFD 1 0xC000 2 7 5]\<rparr>)"
  by (simp add: UnregisterIoEventAt_def UnregisterIoEvent_def event_matches_def StopPolling_def
        ioctl_def kvm_accept_def bind_result_def event_manager_def booted_manager_def
        new_manager_def KVM_IOEVENTFD_FLAG_PIO_def KVM_IOEVENTFD_FLAG_DATAMATCH_def
        KVM_IOEVENTFD_FLAG_DEASSIGN_def)

text \<open>
  Claim C10. When no live event matches the device, the address and the PIO/MMIO kind,
  \<^verbatim>\<open>UnregisterIoEvent(device, type, address)\<close> returns with the whole state unchanged
  (events, handler tables, mirror, polled descriptors, and no request to the kernel),
  whereas \<^verbatim>\<open>UpdateMsiRoute\<close> on a gsi that no entry has ends in a panic.
\<close>

theorem unregister_missing_ioevent_is_silent:
  assumes "\<forall>e\<in>set (ioevents s). \<not> event_matches device type address e"
  shows "UnregisterIoEventAt kvm s device type address = Inr s
       \<and> ((\<forall>e\<in>set (gsi_routing_table s). entry_gsi e \<noteq> gsi) \<longrightarrow>
            isl (UpdateMsiRoute kvm s gsi msi_address data trigger_fd))"
proof -
  have "find_if (event_matches device type address) (ioevents s) = None"
    using assms by (simp add: find_if_None_iff)
  then show ?thesis
    by (simp add: UnregisterIoEventAt_def UpdateMsiRoute_missing)
qed

theorem unregister_missing_ioevent_is_silent_witness:
  "list_all (\<lambda>e. \<not> event_matches 8 kIoResourceTypePio 0xC000 e) (ioevents event_manager)
   \<and> list_all (\<lambda>e. entry_gsi e \<noteq> 24) (gsi_routing_table event_manager)
   \<and> UnregisterIoEventAt kvm_accept event_manager 8 kIoResourceTypePio 0xC000 = Inr event_manager
   \<and> isl (UpdateMsiRoute kvm_accept event_manager 24 0 0 (- 1))"
proof -
  have e: "\<forall>e\<in>set (ioevents event_manager). \<not> event_matches 8 kIoResourceTypePio 0xC000 e"
    by (simp add: event_manager_def event_matches_def KVM_IOEVENTFD_FLAG_PIO_def
          KVM_IOEVENTFD_FLAG_DATAMATCH_def)
  have m: "\<forall>e\<in>set (gsi_routing_table event_manager). entry_gsi e \<noteq> 24"
    using initial_routes_below_24 by (auto simp: event_manager_def booted_manager_def new_manager_def)
  from unregister_missing_ioevent_is_silent [OF e, of kvm_accept 24 0 0 "- 1"] e m
  show ?thesis
    by (simp add: list_all_iff)
qed

end
